theory Spec2Isabelle
  imports Main "HOL-Library.Word"
begin

unbundle bit_operations_syntax

section \<open>Python values, exceptions and the bus\<close>

text \<open>
  The driver \<^verbatim>\<open>pca9557.py\<close> talks to an 8-bit I/O expander through a MicroPython
  \<^verbatim>\<open>machine.I2C\<close> object. Python integers are \<open>int\<close>; the elements of a \<^verbatim>\<open>bytes\<close>
  object are bytes (\<open>8 word\<close>). Every exception the driver can meet is a subclass of
  \<^verbatim>\<open>Exception\<close>, so an \<^verbatim>\<open>except Exception\<close> clause catches each value of \<open>pyexn\<close>.
  Diagnostic printing (\<^verbatim>\<open>print\<close> under \<^verbatim>\<open>self.debug\<close>) writes to standard output only
  and is left out; the bus reads that \<^verbatim>\<open>__init__\<close> makes under \<^verbatim>\<open>self.debug\<close> are kept.
\<close>

type_synonym byte = "8 word"

datatype pyexn = OSError int | IndexError | ValueError

text \<open>The values the optional argument of \<^verbatim>\<open>PCA9557Pin.value\<close> ranges over, and its results.\<close>

datatype pyval = PyNone | PyBool bool | PyInt int

fun truthy :: "pyval \<Rightarrow> bool" where
  "truthy PyNone = False"
| "truthy (PyBool b) = b"
| "truthy (PyInt i) = (i \<noteq> 0)"

text \<open>
  The I2C object is the driver's external collaborator: its two methods, over a bus
  state \<open>'b\<close>. A method either raises or returns, and may change the bus state.
\<close>

record 'b i2c_bus =
  readfrom_mem :: "int \<Rightarrow> int \<Rightarrow> int \<Rightarrow> 'b \<Rightarrow> (pyexn + byte list) \<times> 'b"
  writeto_mem :: "int \<Rightarrow> int \<Rightarrow> byte list \<Rightarrow> 'b \<Rightarrow> (pyexn + unit) \<times> 'b"

text \<open>Each call of a bus method is a transaction; the world keeps the list of them.\<close>

datatype bus_call = ReadMem int int int | WriteMem int int "byte list"

record 'b world =
  bus :: 'b
  calls :: "bus_call list"

type_synonym ('b, 'a) py = "'b world \<Rightarrow> (pyexn + 'a) \<times> 'b world"

definition py_return :: "'a \<Rightarrow> ('b, 'a) py" where
  "py_return x w = (Inr x, w)"

definition py_raise :: "pyexn \<Rightarrow> ('b, 'a) py" where
  "py_raise e w = (Inl e, w)"

definition py_bind :: "('b, 'a) py \<Rightarrow> ('a \<Rightarrow> ('b, 'c) py) \<Rightarrow> ('b, 'c) py" where
  "py_bind m f w = (case m w of (Inl e, w') \<Rightarrow> (Inl e, w') | (Inr x, w') \<Rightarrow> f x w')"

text \<open>\<^verbatim>\<open>try: m except Exception as e: h(e)\<close>\<close>

definition py_try :: "('b, 'a) py \<Rightarrow> (pyexn \<Rightarrow> ('b, 'a) py) \<Rightarrow> ('b, 'a) py" where
  "py_try m h w = (case m w of (Inl e, w') \<Rightarrow> h e w' | (Inr x, w') \<Rightarrow> (Inr x, w'))"

definition py_of_sum :: "pyexn + 'a \<Rightarrow> ('b, 'a) py" where
  "py_of_sum r w = (r, w)"

definition call_readfrom_mem ::
  "'b i2c_bus \<Rightarrow> int \<Rightarrow> int \<Rightarrow> int \<Rightarrow> ('b, byte list) py" where
  "call_readfrom_mem dev a reg n w =
     (case readfrom_mem dev a reg n (bus w) of
        (r, b') \<Rightarrow> (r, \<lparr>bus = b', calls = calls w @ [ReadMem a reg n]\<rparr>))"

definition call_writeto_mem ::
  "'b i2c_bus \<Rightarrow> int \<Rightarrow> int \<Rightarrow> byte list \<Rightarrow> ('b, unit) py" where
  "call_writeto_mem dev a reg bs w =
     (case writeto_mem dev a reg bs (bus w) of
        (r, b') \<Rightarrow> (r, \<lparr>bus = b', calls = calls w @ [WriteMem a reg bs]\<rparr>))"

text \<open>\<^verbatim>\<open>bytes([value])\<close> raises ValueError unless \<^verbatim>\<open>value\<close> is in \<^verbatim>\<open>range(256)\<close>.\<close>

definition bytes1 :: "int \<Rightarrow> pyexn + byte list" where
  "bytes1 v = (if 0 \<le> v \<and> v < 256 then Inr [word_of_int v] else Inl ValueError)"

text \<open>\<^verbatim>\<open>data[0]\<close> raises IndexError on an empty \<^verbatim>\<open>bytes\<close>.\<close>

definition index0 :: "byte list \<Rightarrow> pyexn + int" where
  "index0 data = (case data of [] \<Rightarrow> Inl IndexError | d # _ \<Rightarrow> Inr (uint d))"

section \<open>The driver\<close>

abbreviation (input) PCA9557_ADDR :: int where "PCA9557_ADDR \<equiv> 0x19"
abbreviation (input) PCA9557_INPUT_REG :: int where "PCA9557_INPUT_REG \<equiv> 0x00"
abbreviation (input) PCA9557_OUTPUT_REG :: int where "PCA9557_OUTPUT_REG \<equiv> 0x01"
abbreviation (input) PCA9557_POLARITY_REG :: int where "PCA9557_POLARITY_REG \<equiv> 0x02"
abbreviation (input) PCA9557_CONFIG_REG :: int where "PCA9557_CONFIG_REG \<equiv> 0x03"

abbreviation (input) PIN_LOW :: int where "PIN_LOW \<equiv> 0"
abbreviation (input) PIN_HIGH :: int where "PIN_HIGH \<equiv> 1"
abbreviation (input) PIN_OUTPUT :: int where "PIN_OUTPUT \<equiv> 0"
abbreviation (input) PIN_INPUT :: int where "PIN_INPUT \<equiv> 1"
abbreviation (input) PIN_NON_INVERTED :: int where "PIN_NON_INVERTED \<equiv> 0"
abbreviation (input) PIN_INVERTED :: int where "PIN_INVERTED \<equiv> 1"

record 'b PCA9557 =
  i2c :: "'b i2c_bus"
  addr :: int
  debug :: bool

text \<open>\<^verbatim>\<open>_write_reg\<close>: the write inside \<^verbatim>\<open>try\<close>; any exception gives \<^verbatim>\<open>False\<close>.\<close>

definition write_reg :: "'b PCA9557 \<Rightarrow> int \<Rightarrow> int \<Rightarrow> ('b, bool) py" where
  "write_reg self reg val =
     py_try
       (py_bind (py_of_sum (bytes1 val)) (\<lambda>bs.
        py_bind (call_writeto_mem (i2c self) (addr self) reg bs) (\<lambda>_.
        py_return True)))
       (\<lambda>e. py_return False)"

text \<open>\<^verbatim>\<open>_read_reg\<close>: the read and \<^verbatim>\<open>data[0]\<close> inside \<^verbatim>\<open>try\<close>; any exception gives 0.\<close>

definition read_reg :: "'b PCA9557 \<Rightarrow> int \<Rightarrow> ('b, int) py" where
  "read_reg self reg =
     py_try
       (py_bind (call_readfrom_mem (i2c self) (addr self) reg 1) (\<lambda>data.
        py_of_sum (index0 data)))
       (\<lambda>e. py_return 0)"

text \<open>
  \<^verbatim>\<open>PCA9557.__init__\<close>: two reads, the two startup writes (their results are not
  looked at), two more reads under \<^verbatim>\<open>debug\<close>, all inside a \<^verbatim>\<open>try\<close> whose handler
  re-raises.
\<close>

definition PCA9557_init :: "'b i2c_bus \<Rightarrow> int \<Rightarrow> bool \<Rightarrow> ('b, 'b PCA9557) py" where
  "PCA9557_init dev a dbg =
     (let self = \<lparr>i2c = dev, addr = a, debug = dbg\<rparr> in
      py_try
        (py_bind (read_reg self PCA9557_CONFIG_REG) (\<lambda>config.
         py_bind (read_reg self PCA9557_OUTPUT_REG) (\<lambda>output.
         py_bind (write_reg self PCA9557_CONFIG_REG 0x00) (\<lambda>_.
         py_bind (write_reg self PCA9557_OUTPUT_REG 0xFF) (\<lambda>_.
         py_bind (if debug self
                  then py_bind (read_reg self PCA9557_CONFIG_REG) (\<lambda>config.
                       py_bind (read_reg self PCA9557_OUTPUT_REG) (\<lambda>output.
                       py_return ()))
                  else py_return ()) (\<lambda>_.
         py_return self))))))
        (\<lambda>e. py_raise e))"

definition set_pin_mode :: "'b PCA9557 \<Rightarrow> int \<Rightarrow> int \<Rightarrow> ('b, bool) py" where
  "set_pin_mode self pin mode =
     (if \<not> (0 \<le> pin \<and> pin \<le> 7) then py_return False
      else py_bind (read_reg self PCA9557_CONFIG_REG) (\<lambda>current.
           let new_value = (if mode = PIN_OUTPUT
                            then current AND NOT (push_bit (nat pin) 1)
                            else current OR push_bit (nat pin) 1)
           in write_reg self PCA9557_CONFIG_REG new_value))"

definition set_pin_value :: "'b PCA9557 \<Rightarrow> int \<Rightarrow> int \<Rightarrow> ('b, bool) py" where
  "set_pin_value self pin val =
     (if \<not> (0 \<le> pin \<and> pin \<le> 7) then py_return False
      else py_bind (read_reg self PCA9557_OUTPUT_REG) (\<lambda>current.
           let new_value = (if val = PIN_LOW
                            then current AND NOT (push_bit (nat pin) 1)
                            else current OR push_bit (nat pin) 1)
           in py_bind (write_reg self PCA9557_OUTPUT_REG new_value) (\<lambda>result.
              py_return result)))"

definition get_pin_value :: "'b PCA9557 \<Rightarrow> int \<Rightarrow> ('b, int) py" where
  "get_pin_value self pin =
     (if \<not> (0 \<le> pin \<and> pin \<le> 7) then py_return (- 1)
      else py_bind (read_reg self PCA9557_INPUT_REG) (\<lambda>val.
           py_return (if val AND push_bit (nat pin) 1 \<noteq> 0 then PIN_HIGH else PIN_LOW)))"

definition set_pin_polarity :: "'b PCA9557 \<Rightarrow> int \<Rightarrow> int \<Rightarrow> ('b, bool) py" where
  "set_pin_polarity self pin polarity =
     (if \<not> (0 \<le> pin \<and> pin \<le> 7) then py_return False
      else py_bind (read_reg self PCA9557_POLARITY_REG) (\<lambda>current.
           let new_value = (if polarity = PIN_NON_INVERTED
                            then current AND NOT (push_bit (nat pin) 1)
                            else current OR push_bit (nat pin) 1)
           in write_reg self PCA9557_POLARITY_REG new_value))"

text \<open>
  The value the three setters compute from \<^verbatim>\<open>current\<close>, written once for the
  statements below (an input abbreviation: it unfolds to the \<open>if\<close> of the setters).
\<close>

abbreviation (input) new_value :: "int \<Rightarrow> int \<Rightarrow> int \<Rightarrow> int" where
  "new_value current pin a \<equiv>
     (if a = 0 then current AND NOT (push_bit (nat pin) 1) else current OR push_bit (nat pin) 1)"

subsection \<open>The pin adapter\<close>

record 'b PCA9557Pin =
  pca9557 :: "'b PCA9557"
  pin_num :: int
  pin_debug :: bool

text \<open>\<^verbatim>\<open>PCA9557Pin.__init__\<close>: the result of \<^verbatim>\<open>set_pin_mode\<close> is dropped.\<close>

definition PCA9557Pin_init :: "'b PCA9557 \<Rightarrow> int \<Rightarrow> bool \<Rightarrow> ('b, 'b PCA9557Pin) py" where
  "PCA9557Pin_init pca n dbg =
     (let self = \<lparr>pca9557 = pca, pin_num = n, pin_debug = dbg\<rparr> in
      py_bind (set_pin_mode (pca9557 self) n PIN_OUTPUT) (\<lambda>_.
      py_return self))"

text \<open>\<^verbatim>\<open>PCA9557Pin.value\<close>: the test is \<^verbatim>\<open>val is not None\<close>, not the truth of \<^verbatim>\<open>val\<close>.\<close>

definition Pin_value :: "'b PCA9557Pin \<Rightarrow> pyval \<Rightarrow> ('b, pyval) py" where
  "Pin_value self val =
     (if val \<noteq> PyNone
      then py_bind (set_pin_value (pca9557 self) (pin_num self)
                      (if truthy val then PIN_HIGH else PIN_LOW)) (\<lambda>r.
           py_return (PyBool r))
      else py_bind (get_pin_value (pca9557 self) (pin_num self)) (\<lambda>r.
           py_return (PyInt r)))"

section \<open>A simulated register file\<close>

text \<open>
  A concrete bus for examples: a device that holds one byte per register and answers a
  read of \<open>n\<close> bytes with the addressed register \<open>n\<close> times (the chip has no
  auto-increment). The Input register is read-only. Transactions are numbered from
  \<open>tick\<close>; transaction \<open>k\<close> raises \<^verbatim>\<open>OSError(5)\<close> when \<open>fault k\<close> holds and then leaves
  the registers alone.
\<close>

record regfile =
  regs :: "int \<Rightarrow> byte"
  tick :: nat

definition sim_read ::
  "(nat \<Rightarrow> bool) \<Rightarrow> int \<Rightarrow> int \<Rightarrow> int \<Rightarrow> regfile \<Rightarrow> (pyexn + byte list) \<times> regfile" where
  "sim_read fault a reg n s =
     (if fault (tick s) then (Inl (OSError 5), s\<lparr>tick := Suc (tick s)\<rparr>)
      else (Inr (replicate (nat n) (regs s reg)), s\<lparr>tick := Suc (tick s)\<rparr>))"

definition sim_write ::
  "(nat \<Rightarrow> bool) \<Rightarrow> int \<Rightarrow> int \<Rightarrow> byte list \<Rightarrow> regfile \<Rightarrow> (pyexn + unit) \<times> regfile" where
  "sim_write fault a reg bs s =
     (if fault (tick s) then (Inl (OSError 5), s\<lparr>tick := Suc (tick s)\<rparr>)
      else (Inr (),
            (case bs of
               [] \<Rightarrow> s\<lparr>tick := Suc (tick s)\<rparr>
             | v # _ \<Rightarrow>
                 if reg = PCA9557_INPUT_REG then s\<lparr>tick := Suc (tick s)\<rparr>
                 else s\<lparr>regs := (regs s)(reg := v), tick := Suc (tick s)\<rparr>)))"

definition sim_i2c :: "(nat \<Rightarrow> bool) \<Rightarrow> regfile i2c_bus" where
  "sim_i2c fault = \<lparr>readfrom_mem = sim_read fault, writeto_mem = sim_write fault\<rparr>"

definition no_fault :: "nat \<Rightarrow> bool" where
  "no_fault k = False"

definition always_fault :: "nat \<Rightarrow> bool" where
  "always_fault k = True"

definition first_fault :: "nat \<Rightarrow> bool" where
  "first_fault k = (k = 0)"

definition world0 :: "byte \<Rightarrow> byte \<Rightarrow> byte \<Rightarrow> byte \<Rightarrow> regfile world" where
  "world0 inp out pol cfg =
     \<lparr>bus = \<lparr>regs = (\<lambda>r. if r = PCA9557_INPUT_REG then inp
                          else if r = PCA9557_OUTPUT_REG then out
                          else if r = PCA9557_POLARITY_REG then pol
                          else if r = PCA9557_CONFIG_REG then cfg else 0),
              tick = 0\<rparr>,
      calls = []\<rparr>"

section \<open>The register access primitives\<close>

text \<open>Neither primitive raises: each returns a value and logs at most one transaction.\<close>

lemma read_reg_eq:
  "read_reg self reg w =
     (Inr (case fst (readfrom_mem (i2c self) (addr self) reg 1 (bus w)) of
             Inl e \<Rightarrow> 0 | Inr [] \<Rightarrow> 0 | Inr (d # ds) \<Rightarrow> uint d),
      \<lparr>bus = snd (readfrom_mem (i2c self) (addr self) reg 1 (bus w)),
       calls = calls w @ [ReadMem (addr self) reg 1]\<rparr>)"
  by (simp add: read_reg_def py_try_def py_bind_def call_readfrom_mem_def py_of_sum_def
      py_return_def index0_def split: prod.splits sum.splits list.splits)

lemma write_reg_eq:
  "0 \<le> v \<Longrightarrow> v < 256 \<Longrightarrow>
   write_reg self reg v w =
     (Inr (case fst (writeto_mem (i2c self) (addr self) reg [word_of_int v] (bus w)) of
             Inl e \<Rightarrow> False | Inr u \<Rightarrow> True),
      \<lparr>bus = snd (writeto_mem (i2c self) (addr self) reg [word_of_int v] (bus w)),
       calls = calls w @ [WriteMem (addr self) reg [word_of_int v]]\<rparr>)"
  by (simp add: write_reg_def py_try_def py_bind_def call_writeto_mem_def py_of_sum_def
      py_return_def bytes1_def split: prod.splits sum.splits)

lemma write_reg_out_of_range:
  "\<not> (0 \<le> v \<and> v < 256) \<Longrightarrow> write_reg self reg v w = (Inr False, w)"
  by (auto simp: write_reg_def py_try_def py_bind_def py_of_sum_def py_return_def bytes1_def)

lemma read_reg_range:
  "read_reg self reg w = (Inr c, w1) \<Longrightarrow> 0 \<le> c \<and> c < 256"
proof -
  have "uint d < 256" for d :: byte
    using uint_bounded [of d] by simp
  then show "read_reg self reg w = (Inr c, w1) \<Longrightarrow> 0 \<le> c \<and> c < 256"
    by (auto simp: read_reg_eq split: sum.splits list.splits)
qed

lemma clear_bit_range:
  fixes c :: int
  shows "0 \<le> c \<Longrightarrow> c < 256 \<Longrightarrow> 0 \<le> c AND NOT (push_bit n 1) \<and> c AND NOT (push_bit n 1) < 256"
  by (metis AND_upper1 and_nonnegative_int_iff le_less_trans)

lemma set_bit_range:
  fixes c :: int
  shows "0 \<le> c \<Longrightarrow> c < 256 \<Longrightarrow> n \<le> 7 \<Longrightarrow> 0 \<le> c OR push_bit n 1 \<and> c OR push_bit n 1 < 256"
proof -
  assume c: "0 \<le> c" "c < 256" and n: "n \<le> 7"
  have "(2::int) ^ n \<le> 2 ^ 7" using n by (intro power_increasing) simp_all
  then have p: "push_bit n (1::int) < 2 ^ 8" by (simp add: push_bit_eq_mult)
  have "c OR push_bit n 1 < 2 ^ 8"
    using c p by (intro OR_upper) simp_all
  then show ?thesis using c by simp
qed

lemma py_bind_return: "py_bind m (\<lambda>r. py_return r) = m"
  by (rule ext) (simp add: py_bind_def py_return_def split: prod.splits sum.splits)

lemma read_reg_Inr:
  "\<exists>c. read_reg self reg w =
         (Inr c, \<lparr>bus = snd (readfrom_mem (i2c self) (addr self) reg 1 (bus w)),
                  calls = calls w @ [ReadMem (addr self) reg 1]\<rparr>) \<and> 0 \<le> c \<and> c < 256"
  using read_reg_range [of self reg w] by (simp add: read_reg_eq)

lemma uint_byte_of_int: "0 \<le> v \<Longrightarrow> v < 256 \<Longrightarrow> uint (word_of_int v :: byte) = v"
  by (simp add: uint_word_of_int_eq take_bit_int_eq_self)

lemma new_value_range:
  "0 \<le> c \<Longrightarrow> c < 256 \<Longrightarrow> 0 \<le> p \<Longrightarrow> p \<le> 7 \<Longrightarrow> 0 \<le> new_value c p a \<and> new_value c p a < 256"
  using clear_bit_range [of c "nat p"] set_bit_range [of c "nat p"]
  by simp

lemma set_pin_mode_step:
  "0 \<le> p \<Longrightarrow> p \<le> 7 \<Longrightarrow> read_reg self 3 w = (Inr c, w1) \<Longrightarrow>
   set_pin_mode self p a w = write_reg self 3 (new_value c p a) w1"
  by (simp add: set_pin_mode_def py_bind_def)

lemma set_pin_value_step:
  "0 \<le> p \<Longrightarrow> p \<le> 7 \<Longrightarrow> read_reg self 1 w = (Inr c, w1) \<Longrightarrow>
   set_pin_value self p a w = write_reg self 1 (new_value c p a) w1"
  by (simp add: set_pin_value_def py_bind_return) (simp add: py_bind_def)

lemma set_pin_polarity_step:
  "0 \<le> p \<Longrightarrow> p \<le> 7 \<Longrightarrow> read_reg self 2 w = (Inr c, w1) \<Longrightarrow>
   set_pin_polarity self p a w = write_reg self 2 (new_value c p a) w1"
  by (simp add: set_pin_polarity_def py_bind_def)

lemma write_reg_Inr:
  "0 \<le> v \<Longrightarrow> v < 256 \<Longrightarrow>
   \<exists>b. write_reg self reg v w =
         (Inr b, \<lparr>bus = snd (writeto_mem (i2c self) (addr self) reg [word_of_int v] (bus w)),
                  calls = calls w @ [WriteMem (addr self) reg [word_of_int v]]\<rparr>)"
  by (simp add: write_reg_eq)

lemma write_reg_total: "\<exists>b. fst (write_reg self reg v w) = Inr b"
  by (cases "0 \<le> v \<and> v < 256") (auto simp: write_reg_eq write_reg_out_of_range)

lemma rmw_write:
  assumes "0 \<le> c" "c < 256" "0 \<le> p" "p \<le> 7"
  shows "\<exists>v b. write_reg self reg (new_value c p a) w1 =
             (Inr b, \<lparr>bus = snd (writeto_mem (i2c self) (addr self) reg [v] (bus w1)),
                      calls = calls w1 @ [WriteMem (addr self) reg [v]]\<rparr>) \<and>
           uint v = new_value c p a"
proof -
  have n: "0 \<le> new_value c p a \<and> new_value c p a < 256"
    using new_value_range [OF assms] .
  then obtain b where
    "write_reg self reg (new_value c p a) w1 =
       (Inr b, \<lparr>bus = snd (writeto_mem (i2c self) (addr self) reg
                               [word_of_int (new_value c p a)] (bus w1)),
                calls = calls w1 @ [WriteMem (addr self) reg [word_of_int (new_value c p a)]]\<rparr>)"
    using write_reg_Inr [of "new_value c p a" self reg w1] by blast
  moreover have "uint (word_of_int (new_value c p a) :: byte) = new_value c p a"
    using n uint_byte_of_int by blast
  ultimately show ?thesis by blast
qed

lemma set_pin_mode_write:
  assumes "0 \<le> p" "p \<le> 7"
  shows "\<exists>c w1 v b. read_reg self 3 w = (Inr c, w1) \<and>
           set_pin_mode self p a w =
             (Inr b, \<lparr>bus = snd (writeto_mem (i2c self) (addr self) 3 [v] (bus w1)),
                      calls = calls w1 @ [WriteMem (addr self) 3 [v]]\<rparr>) \<and>
           uint v = new_value c p a"
proof -
  obtain c w1 where r: "read_reg self 3 w = (Inr c, w1)" and c: "0 \<le> c" "c < 256"
    using read_reg_Inr [of self 3 w] by blast
  show ?thesis
    using r rmw_write [OF c assms, of self 3 a w1] set_pin_mode_step [OF assms r, of a]
    by metis
qed

lemma set_pin_value_write:
  assumes "0 \<le> p" "p \<le> 7"
  shows "\<exists>c w1 v b. read_reg self 1 w = (Inr c, w1) \<and>
           set_pin_value self p a w =
             (Inr b, \<lparr>bus = snd (writeto_mem (i2c self) (addr self) 1 [v] (bus w1)),
                      calls = calls w1 @ [WriteMem (addr self) 1 [v]]\<rparr>) \<and>
           uint v = new_value c p a"
proof -
  obtain c w1 where r: "read_reg self 1 w = (Inr c, w1)" and c: "0 \<le> c" "c < 256"
    using read_reg_Inr [of self 1 w] by blast
  show ?thesis
    using r rmw_write [OF c assms, of self 1 a w1] set_pin_value_step [OF assms r, of a]
    by metis
qed

lemma set_pin_polarity_write:
  assumes "0 \<le> p" "p \<le> 7"
  shows "\<exists>c w1 v b. read_reg self 2 w = (Inr c, w1) \<and>
           set_pin_polarity self p a w =
             (Inr b, \<lparr>bus = snd (writeto_mem (i2c self) (addr self) 2 [v] (bus w1)),
                      calls = calls w1 @ [WriteMem (addr self) 2 [v]]\<rparr>) \<and>
           uint v = new_value c p a"
proof -
  obtain c w1 where r: "read_reg self 2 w = (Inr c, w1)" and c: "0 \<le> c" "c < 256"
    using read_reg_Inr [of self 2 w] by blast
  show ?thesis
    using r rmw_write [OF c assms, of self 2 a w1] set_pin_polarity_step [OF assms r, of a]
    by metis
qed

lemma set_pin_mode_total: "\<exists>b. fst (set_pin_mode self p a w) = Inr b"
proof (cases "0 \<le> p \<and> p \<le> 7")
  case True
  then show ?thesis using set_pin_mode_write [of p self w a] by force
next
  case False
  then show ?thesis by (auto simp: set_pin_mode_def py_return_def)
qed

lemma set_pin_value_total: "\<exists>b. fst (set_pin_value self p a w) = Inr b"
proof (cases "0 \<le> p \<and> p \<le> 7")
  case True
  then show ?thesis using set_pin_value_write [of p self w a] by force
next
  case False
  then show ?thesis by (auto simp: set_pin_value_def py_return_def)
qed

lemma get_pin_value_total: "\<exists>r. fst (get_pin_value self p w) = Inr r"
  using read_reg_Inr [of self 0 w]
  by (auto simp: get_pin_value_def py_return_def py_bind_def)

section \<open>Read-modify-write of one pin\<close>

lemma read_reg_value:
  "read_reg self reg w = (Inr c, w1) \<Longrightarrow>
   c = (case fst (readfrom_mem (i2c self) (addr self) reg 1 (bus w)) of
          Inl e \<Rightarrow> 0 | Inr [] \<Rightarrow> 0 | Inr (d # ds) \<Rightarrow> uint d) \<and>
   calls w1 = calls w @ [ReadMem (addr self) reg 1]"
  by (auto simp: read_reg_eq)

lemma set_pin_mode_calls:
  assumes "0 \<le> p" "p \<le> 7"
  shows "\<exists>v. calls (snd (set_pin_mode self p a w)) =
               calls w @ [ReadMem (addr self) PCA9557_CONFIG_REG 1,
                          WriteMem (addr self) PCA9557_CONFIG_REG [v]] \<and>
             uint v = new_value
               (case fst (readfrom_mem (i2c self) (addr self) PCA9557_CONFIG_REG 1 (bus w)) of
                  Inl e \<Rightarrow> 0 | Inr [] \<Rightarrow> 0 | Inr (d # ds) \<Rightarrow> uint d) p a"
proof -
  obtain c w1 v b where r: "read_reg self 3 w = (Inr c, w1)"
    and s: "set_pin_mode self p a w =
             (Inr b, \<lparr>bus = snd (writeto_mem (i2c self) (addr self) 3 [v] (bus w1)),
                      calls = calls w1 @ [WriteMem (addr self) 3 [v]]\<rparr>)"
    and u: "uint v = new_value c p a"
    using set_pin_mode_write [OF assms, of self w a] by blast
  show ?thesis using read_reg_value [OF r] s u by auto
qed

lemma set_pin_value_calls:
  assumes "0 \<le> p" "p \<le> 7"
  shows "\<exists>v. calls (snd (set_pin_value self p a w)) =
               calls w @ [ReadMem (addr self) PCA9557_OUTPUT_REG 1,
                          WriteMem (addr self) PCA9557_OUTPUT_REG [v]] \<and>
             uint v = new_value
               (case fst (readfrom_mem (i2c self) (addr self) PCA9557_OUTPUT_REG 1 (bus w)) of
                  Inl e \<Rightarrow> 0 | Inr [] \<Rightarrow> 0 | Inr (d # ds) \<Rightarrow> uint d) p a"
proof -
  obtain c w1 v b where r: "read_reg self 1 w = (Inr c, w1)"
    and s: "set_pin_value self p a w =
             (Inr b, \<lparr>bus = snd (writeto_mem (i2c self) (addr self) 1 [v] (bus w1)),
                      calls = calls w1 @ [WriteMem (addr self) 1 [v]]\<rparr>)"
    and u: "uint v = new_value c p a"
    using set_pin_value_write [OF assms, of self w a] by blast
  show ?thesis using read_reg_value [OF r] s u by auto
qed

lemma set_pin_polarity_calls:
  assumes "0 \<le> p" "p \<le> 7"
  shows "\<exists>v. calls (snd (set_pin_polarity self p a w)) =
               calls w @ [ReadMem (addr self) PCA9557_POLARITY_REG 1,
                          WriteMem (addr self) PCA9557_POLARITY_REG [v]] \<and>
             uint v = new_value
               (case fst (readfrom_mem (i2c self) (addr self) PCA9557_POLARITY_REG 1 (bus w)) of
                  Inl e \<Rightarrow> 0 | Inr [] \<Rightarrow> 0 | Inr (d # ds) \<Rightarrow> uint d) p a"
proof -
  obtain c w1 v b where r: "read_reg self 2 w = (Inr c, w1)"
    and s: "set_pin_polarity self p a w =
             (Inr b, \<lparr>bus = snd (writeto_mem (i2c self) (addr self) 2 [v] (bus w1)),
                      calls = calls w1 @ [WriteMem (addr self) 2 [v]]\<rparr>)"
    and u: "uint v = new_value c p a"
    using set_pin_polarity_write [OF assms, of self w a] by blast
  show ?thesis using read_reg_value [OF r] s u by auto
qed

text \<open>
  C4. The three read-modify-write setters follow one bit-update rule, the same for the
  Config, Output and Polarity registers. For a valid pin \<open>p\<close> and an argument that is 0
  or 1, the setter issues one read of its register and then one write to it. When the
  read succeeds and returns the register's current byte \<open>c\<close>, the byte written is
  \<open>c & ~(1 << p)\<close> for the argument 0 and \<open>c | (1 << p)\<close> for the argument 1. When the
  read raises, the same rule is applied to 0 in place of the register's value.
\<close>

theorem bit_update_rule:
  assumes "0 \<le> p" "p \<le> 7" "a = 0 \<or> a = 1"
  shows
    "(\<forall>c rest b1.
        readfrom_mem (i2c self) (addr self) PCA9557_CONFIG_REG 1 (bus w) = (Inr (c # rest), b1) \<longrightarrow>
        (\<exists>v. calls (snd (set_pin_mode self p a w)) =
               calls w @ [ReadMem (addr self) PCA9557_CONFIG_REG 1,
                          WriteMem (addr self) PCA9557_CONFIG_REG [v]] \<and>
             uint v = (if a = 0 then uint c AND NOT (push_bit (nat p) 1)
                       else uint c OR push_bit (nat p) 1))) \<and>
     (\<forall>c rest b1.
        readfrom_mem (i2c self) (addr self) PCA9557_OUTPUT_REG 1 (bus w) = (Inr (c # rest), b1) \<longrightarrow>
        (\<exists>v. calls (snd (set_pin_value self p a w)) =
               calls w @ [ReadMem (addr self) PCA9557_OUTPUT_REG 1,
                          WriteMem (addr self) PCA9557_OUTPUT_REG [v]] \<and>
             uint v = (if a = 0 then uint c AND NOT (push_bit (nat p) 1)
                       else uint c OR push_bit (nat p) 1))) \<and>
     (\<forall>c rest b1.
        readfrom_mem (i2c self) (addr self) PCA9557_POLARITY_REG 1 (bus w) = (Inr (c # rest), b1) \<longrightarrow>
        (\<exists>v. calls (snd (set_pin_polarity self p a w)) =
               calls w @ [ReadMem (addr self) PCA9557_POLARITY_REG 1,
                          WriteMem (addr self) PCA9557_POLARITY_REG [v]] \<and>
             uint v = (if a = 0 then uint c AND NOT (push_bit (nat p) 1)
                       else uint c OR push_bit (nat p) 1))) \<and>
     (\<forall>e b1.
        readfrom_mem (i2c self) (addr self) PCA9557_CONFIG_REG 1 (bus w) = (Inl e, b1) \<longrightarrow>
        (\<exists>v. calls (snd (set_pin_mode self p a w)) =
               calls w @ [ReadMem (addr self) PCA9557_CONFIG_REG 1,
                          WriteMem (addr self) PCA9557_CONFIG_REG [v]] \<and>
             uint v = (if a = 0 then 0 AND NOT (push_bit (nat p) 1)
                       else 0 OR push_bit (nat p) 1))) \<and>
     (\<forall>e b1.
        readfrom_mem (i2c self) (addr self) PCA9557_OUTPUT_REG 1 (bus w) = (Inl e, b1) \<longrightarrow>
        (\<exists>v. calls (snd (set_pin_value self p a w)) =
               calls w @ [ReadMem (addr self) PCA9557_OUTPUT_REG 1,
                          WriteMem (addr self) PCA9557_OUTPUT_REG [v]] \<and>
             uint v = (if a = 0 then 0 AND NOT (push_bit (nat p) 1)
                       else 0 OR push_bit (nat p) 1))) \<and>
     (\<forall>e b1.
        readfrom_mem (i2c self) (addr self) PCA9557_POLARITY_REG 1 (bus w) = (Inl e, b1) \<longrightarrow>
        (\<exists>v. calls (snd (set_pin_polarity self p a w)) =
               calls w @ [ReadMem (addr self) PCA9557_POLARITY_REG 1,
                          WriteMem (addr self) PCA9557_POLARITY_REG [v]] \<and>
             uint v = (if a = 0 then 0 AND NOT (push_bit (nat p) 1)
                       else 0 OR push_bit (nat p) 1)))"
proof (intro conjI allI impI)
  fix c rest b1
  assume "readfrom_mem (i2c self) (addr self) PCA9557_CONFIG_REG 1 (bus w) = (Inr (c # rest), b1)"
  then show "\<exists>v. calls (snd (set_pin_mode self p a w)) =
               calls w @ [ReadMem (addr self) PCA9557_CONFIG_REG 1,
                          WriteMem (addr self) PCA9557_CONFIG_REG [v]] \<and>
             uint v = (if a = 0 then uint c AND NOT (push_bit (nat p) 1)
                       else uint c OR push_bit (nat p) 1)"
    using set_pin_mode_calls [OF assms(1,2), of self a w] by auto
next
  fix c rest b1
  assume "readfrom_mem (i2c self) (addr self) PCA9557_OUTPUT_REG 1 (bus w) = (Inr (c # rest), b1)"
  then show "\<exists>v. calls (snd (set_pin_value self p a w)) =
               calls w @ [ReadMem (addr self) PCA9557_OUTPUT_REG 1,
                          WriteMem (addr self) PCA9557_OUTPUT_REG [v]] \<and>
             uint v = (if a = 0 then uint c AND NOT (push_bit (nat p) 1)
                       else uint c OR push_bit (nat p) 1)"
    using set_pin_value_calls [OF assms(1,2), of self a w] by auto
next
  fix c rest b1
  assume "readfrom_mem (i2c self) (addr self) PCA9557_POLARITY_REG 1 (bus w) = (Inr (c # rest), b1)"
  then show "\<exists>v. calls (snd (set_pin_polarity self p a w)) =
               calls w @ [ReadMem (addr self) PCA9557_POLARITY_REG 1,
                          WriteMem (addr self) PCA9557_POLARITY_REG [v]] \<and>
             uint v = (if a = 0 then uint c AND NOT (push_bit (nat p) 1)
                       else uint c OR push_bit (nat p) 1)"
    using set_pin_polarity_calls [OF assms(1,2), of self a w] by auto
next
  fix e b1
  assume "readfrom_mem (i2c self) (addr self) PCA9557_CONFIG_REG 1 (bus w) = (Inl e, b1)"
  then show "\<exists>v. calls (snd (set_pin_mode self p a w)) =
               calls w @ [ReadMem (addr self) PCA9557_CONFIG_REG 1,
                          WriteMem (addr self) PCA9557_CONFIG_REG [v]] \<and>
             uint v = (if a = 0 then 0 AND NOT (push_bit (nat p) 1)
                       else 0 OR push_bit (nat p) 1)"
    using set_pin_mode_calls [OF assms(1,2), of self a w] by auto
next
  fix e b1
  assume "readfrom_mem (i2c self) (addr self) PCA9557_OUTPUT_REG 1 (bus w) = (Inl e, b1)"
  then show "\<exists>v. calls (snd (set_pin_value self p a w)) =
               calls w @ [ReadMem (addr self) PCA9557_OUTPUT_REG 1,
                          WriteMem (addr self) PCA9557_OUTPUT_REG [v]] \<and>
             uint v = (if a = 0 then 0 AND NOT (push_bit (nat p) 1)
                       else 0 OR push_bit (nat p) 1)"
    using set_pin_value_calls [OF assms(1,2), of self a w] by auto
next
  fix e b1
  assume "readfrom_mem (i2c self) (addr self) PCA9557_POLARITY_REG 1 (bus w) = (Inl e, b1)"
  then show "\<exists>v. calls (snd (set_pin_polarity self p a w)) =
               calls w @ [ReadMem (addr self) PCA9557_POLARITY_REG 1,
                          WriteMem (addr self) PCA9557_POLARITY_REG [v]] \<and>
             uint v = (if a = 0 then 0 AND NOT (push_bit (nat p) 1)
                       else 0 OR push_bit (nat p) 1)"
    using set_pin_polarity_calls [OF assms(1,2), of self a w] by auto
qed

text \<open>
  The witness: Config holds 0xF0 and the read succeeds; \<^verbatim>\<open>set_pin_mode(3, PIN_INPUT)\<close>
  reads it and writes 0xF0 | 0x08 = 0xF8.
\<close>

theorem bit_update_rule_witness:
  "calls (snd (set_pin_mode \<lparr>i2c = sim_i2c no_fault, addr = PCA9557_ADDR, debug = False\<rparr>
                 3 PIN_INPUT (world0 0 0 0 0xF0))) =
     [ReadMem PCA9557_ADDR PCA9557_CONFIG_REG 1, WriteMem PCA9557_ADDR PCA9557_CONFIG_REG [0xF8]]"
proof -
  have h: "(0::int) \<le> 3" "(3::int) \<le> 7" "(1::int) = 0 \<or> (1::int) = 1" by simp_all
  have rd: "readfrom_mem (i2c \<lparr>i2c = sim_i2c no_fault, addr = PCA9557_ADDR, debug = False\<rparr>)
              (addr \<lparr>i2c = sim_i2c no_fault, addr = PCA9557_ADDR, debug = False\<rparr>)
              PCA9557_CONFIG_REG 1 (bus (world0 0 0 0 0xF0)) =
            (Inr (0xF0 # []), (bus (world0 0 0 0 0xF0))\<lparr>tick := 1\<rparr>)"
    by (simp add: sim_i2c_def sim_read_def no_fault_def world0_def)
  from bit_update_rule [OF h,
      of "\<lparr>i2c = sim_i2c no_fault, addr = PCA9557_ADDR, debug = False\<rparr>" "world0 0 0 0 0xF0"] rd
  obtain v :: byte where
    c: "calls (snd (set_pin_mode \<lparr>i2c = sim_i2c no_fault, addr = PCA9557_ADDR, debug = False\<rparr>
                 3 PIN_INPUT (world0 0 0 0 0xF0))) =
        calls (world0 0 0 0 0xF0) @
        [ReadMem (addr \<lparr>i2c = sim_i2c no_fault, addr = PCA9557_ADDR, debug = False\<rparr>)
           PCA9557_CONFIG_REG 1,
         WriteMem (addr \<lparr>i2c = sim_i2c no_fault, addr = PCA9557_ADDR, debug = False\<rparr>)
           PCA9557_CONFIG_REG [v]]"
    and u: "uint v = (if (1::int) = 0 then uint (0xF0 :: byte) AND NOT (push_bit (nat 3) 1)
                      else uint (0xF0 :: byte) OR push_bit (nat 3) 1)"
    by blast
  from u have "uint v = 0xF8" by simp
  then have "word_of_int (uint v) = (word_of_int 0xF8 :: byte)" by simp
  then have "v = 0xF8" by simp
  with c show ?thesis by (simp add: world0_def)
qed

text \<open>
  The claim without the condition on the read fails: Config holds 0xF0, the read is
  transaction 0 and raises, and \<^verbatim>\<open>set_pin_mode(3, PIN_INPUT)\<close> writes 0x08, which is not
  0xF0 | 0x08 = 0xF8.
\<close>

theorem bit_update_rule_counterexample:
  "regs (bus (world0 0 0 0 0xF0)) PCA9557_CONFIG_REG = 0xF0 \<and>
   calls (snd (set_pin_mode \<lparr>i2c = sim_i2c first_fault, addr = PCA9557_ADDR, debug = False\<rparr>
                 3 PIN_INPUT (world0 0 0 0 0xF0))) =
     [ReadMem PCA9557_ADDR PCA9557_CONFIG_REG 1, WriteMem PCA9557_ADDR PCA9557_CONFIG_REG [0x08]] \<and>
   uint (0x08 :: byte) \<noteq> uint (0xF0 :: byte) OR push_bit (nat 3) 1"
  by (simp add: set_pin_mode_def py_bind_def read_reg_eq write_reg_eq world0_def sim_i2c_def
      sim_read_def sim_write_def first_fault_def)

section \<open>Invalid pin numbers\<close>

text \<open>
  C5. For a pin number outside 0..7 (negative, or 8 and above) every per-pin operation
  returns its failure value, \<^verbatim>\<open>False\<close> for the three setters and \<open>-1\<close> for
  \<^verbatim>\<open>get_pin_value\<close>, and leaves the world as it was: no bus transaction is logged and
  the bus state is unchanged.
\<close>

theorem invalid_pin_no_bus:
  assumes "pin < 0 \<or> 7 < pin"
  shows "set_pin_mode self pin mode w = (Inr False, w) \<and>
         set_pin_value self pin val w = (Inr False, w) \<and>
         set_pin_polarity self pin polarity w = (Inr False, w) \<and>
         get_pin_value self pin w = (Inr (- 1), w)"
  using assms
  by (auto simp: set_pin_mode_def set_pin_value_def set_pin_polarity_def get_pin_value_def
      py_return_def)

theorem invalid_pin_no_bus_witness:
  "set_pin_mode \<lparr>i2c = sim_i2c no_fault, addr = PCA9557_ADDR, debug = False\<rparr> 8 PIN_INPUT
     (world0 1 2 3 4) = (Inr False, world0 1 2 3 4) \<and>
   set_pin_value \<lparr>i2c = sim_i2c no_fault, addr = PCA9557_ADDR, debug = False\<rparr> 8 PIN_HIGH
     (world0 1 2 3 4) = (Inr False, world0 1 2 3 4) \<and>
   set_pin_polarity \<lparr>i2c = sim_i2c no_fault, addr = PCA9557_ADDR, debug = False\<rparr> 8 PIN_INVERTED
     (world0 1 2 3 4) = (Inr False, world0 1 2 3 4) \<and>
   get_pin_value \<lparr>i2c = sim_i2c no_fault, addr = PCA9557_ADDR, debug = False\<rparr> 8
     (world0 1 2 3 4) = (Inr (- 1), world0 1 2 3 4) \<and>
   calls (snd (get_pin_value \<lparr>i2c = sim_i2c no_fault, addr = PCA9557_ADDR, debug = False\<rparr> (- 1)
     (world0 1 2 3 4))) = []"
proof -
  have h8: "(8::int) < 0 \<or> 7 < (8::int)" and hm: "(- 1::int) < 0 \<or> 7 < (- 1::int)" by simp_all
  show ?thesis
    using invalid_pin_no_bus [OF h8, of "\<lparr>i2c = sim_i2c no_fault, addr = PCA9557_ADDR, debug = False\<rparr>"
        1 "world0 1 2 3 4" 1 1]
      invalid_pin_no_bus [OF hm, of "\<lparr>i2c = sim_i2c no_fault, addr = PCA9557_ADDR, debug = False\<rparr>"
        1 "world0 1 2 3 4" 1 1]
    by (simp add: world0_def)
qed

section \<open>Reading a pin\<close>

lemma test_bit_int: "(k AND 2 ^ n = 0) = (\<not> bit (k::int) n)"
  using bit_iff_and_push_bit_not_eq_0 [of k n] by simp

text \<open>
  C7. For a valid pin \<open>p\<close>, \<^verbatim>\<open>get_pin_value\<close> makes one read of the Input register and
  returns bit \<open>p\<close> of the byte read, as 0 or 1. A read that raises (or returns no byte)
  gives 0. The result is never \<open>-1\<close> for a valid pin.
\<close>

theorem get_pin_value_valid:
  assumes "0 \<le> p" "p \<le> 7"
  shows "get_pin_value self p w =
           (Inr (case fst (readfrom_mem (i2c self) (addr self) PCA9557_INPUT_REG 1 (bus w)) of
                   Inl e \<Rightarrow> 0
                 | Inr [] \<Rightarrow> 0
                 | Inr (d # ds) \<Rightarrow> if bit d (nat p) then 1 else 0),
            \<lparr>bus = snd (readfrom_mem (i2c self) (addr self) PCA9557_INPUT_REG 1 (bus w)),
             calls = calls w @ [ReadMem (addr self) PCA9557_INPUT_REG 1]\<rparr>) \<and>
         fst (get_pin_value self p w) \<noteq> Inr (- 1)"
  using assms
  by (simp add: get_pin_value_def py_bind_def py_return_def read_reg_eq test_bit_int
      bit_uint_iff split: sum.splits list.splits)

theorem get_pin_value_valid_witness:
  "get_pin_value \<lparr>i2c = sim_i2c no_fault, addr = PCA9557_ADDR, debug = False\<rparr> 3
     (world0 0x08 0 0 0xFF) =
     (Inr 1, \<lparr>bus = bus (world0 0x08 0 0 0xFF)\<lparr>tick := 1\<rparr>,
              calls = [ReadMem PCA9557_ADDR PCA9557_INPUT_REG 1]\<rparr>) \<and>
   fst (get_pin_value \<lparr>i2c = sim_i2c always_fault, addr = PCA9557_ADDR, debug = False\<rparr> 3
     (world0 0x08 0 0 0xFF)) = Inr 0"
proof -
  have h: "(0::int) \<le> 3" "(3::int) \<le> 7" by simp_all
  show ?thesis
    using get_pin_value_valid [OF h, of "\<lparr>i2c = sim_i2c no_fault, addr = PCA9557_ADDR, debug = False\<rparr>"
        "world0 0x08 0 0 0xFF"]
      get_pin_value_valid [OF h, of "\<lparr>i2c = sim_i2c always_fault, addr = PCA9557_ADDR, debug = False\<rparr>"
        "world0 0x08 0 0 0xFF"]
    by (simp add: world0_def sim_i2c_def sim_read_def no_fault_def always_fault_def)
qed

section \<open>Construction of the expander\<close>

lemma PCA9557_init_result:
  "fst (PCA9557_init dev a dbg w) = Inr \<lparr>i2c = dev, addr = a, debug = dbg\<rparr>"
  by (simp add: PCA9557_init_def Let_def py_try_def py_bind_def py_return_def read_reg_eq write_reg_eq)

text \<open>
  C1. The claim: when a startup write raises a transport error, construction fails and
  hands the error to the caller. The handler in \<^verbatim>\<open>__init__\<close> re-raises, but
  \<^verbatim>\<open>_write_reg\<close> has already turned the error into \<^verbatim>\<open>False\<close>, and \<^verbatim>\<open>__init__\<close> does not
  look at that result (\<open>PCA9557_init_result\<close>: construction returns the expander on every
  bus). Here on a bus where every transaction raises \<^verbatim>\<open>OSError\<close>: both startup writes
  are attempted and raise, the expander is returned all the same, and the device keeps
  its old Config and Output registers.
\<close>

theorem init_on_dead_bus_returns_expander:
  "fst (PCA9557_init (sim_i2c always_fault) PCA9557_ADDR False (world0 0 0 0 0xFF)) =
     Inr \<lparr>i2c = sim_i2c always_fault, addr = PCA9557_ADDR, debug = False\<rparr> \<and>
   calls (snd (PCA9557_init (sim_i2c always_fault) PCA9557_ADDR False (world0 0 0 0 0xFF))) =
     [ReadMem PCA9557_ADDR PCA9557_CONFIG_REG 1, ReadMem PCA9557_ADDR PCA9557_OUTPUT_REG 1,
      WriteMem PCA9557_ADDR PCA9557_CONFIG_REG [0x00],
      WriteMem PCA9557_ADDR PCA9557_OUTPUT_REG [0xFF]] \<and>
   fst (writeto_mem (sim_i2c always_fault) PCA9557_ADDR PCA9557_CONFIG_REG [0x00]
          (bus (world0 0 0 0 0xFF))) = Inl (OSError 5) \<and>
   regs (bus (snd (PCA9557_init (sim_i2c always_fault) PCA9557_ADDR False (world0 0 0 0 0xFF))))
     PCA9557_CONFIG_REG = 0xFF \<and>
   regs (bus (snd (PCA9557_init (sim_i2c always_fault) PCA9557_ADDR False (world0 0 0 0 0xFF))))
     PCA9557_OUTPUT_REG = 0x00"
  by (simp add: PCA9557_init_def Let_def py_try_def py_bind_def py_return_def read_reg_eq write_reg_eq
      sim_i2c_def sim_read_def sim_write_def always_fault_def world0_def)

text \<open>
  C2. Construction issues, after whatever was logged before: a read of Config, a read of
  Output, the write Config = 0x00, the write Output = 0xFF, in this order; and with
  \<^verbatim>\<open>debug\<close> set, two more reads (Config, then Output) after the writes. Nothing else.
  With \<^verbatim>\<open>debug\<close> set the sequence is therefore not the four transactions alone.
\<close>

theorem init_bus_sequence:
  "calls (snd (PCA9557_init dev a dbg w)) =
     calls w @ [ReadMem a PCA9557_CONFIG_REG 1, ReadMem a PCA9557_OUTPUT_REG 1,
                WriteMem a PCA9557_CONFIG_REG [0x00], WriteMem a PCA9557_OUTPUT_REG [0xFF]]
             @ (if dbg then [ReadMem a PCA9557_CONFIG_REG 1, ReadMem a PCA9557_OUTPUT_REG 1]
                else [])"
  by (simp add: PCA9557_init_def Let_def py_try_def py_bind_def py_return_def read_reg_eq write_reg_eq)

theorem init_bus_sequence_counterexample:
  "calls (snd (PCA9557_init (sim_i2c no_fault) PCA9557_ADDR True (world0 0 0 0 0xFF))) \<noteq>
     [ReadMem PCA9557_ADDR PCA9557_CONFIG_REG 1, ReadMem PCA9557_ADDR PCA9557_OUTPUT_REG 1,
      WriteMem PCA9557_ADDR PCA9557_CONFIG_REG [0x00],
      WriteMem PCA9557_ADDR PCA9557_OUTPUT_REG [0xFF]] \<and>
   calls (snd (PCA9557_init (sim_i2c no_fault) PCA9557_ADDR True (world0 0 0 0 0xFF))) =
     [ReadMem PCA9557_ADDR PCA9557_CONFIG_REG 1, ReadMem PCA9557_ADDR PCA9557_OUTPUT_REG 1,
      WriteMem PCA9557_ADDR PCA9557_CONFIG_REG [0x00],
      WriteMem PCA9557_ADDR PCA9557_OUTPUT_REG [0xFF],
      ReadMem PCA9557_ADDR PCA9557_CONFIG_REG 1, ReadMem PCA9557_ADDR PCA9557_OUTPUT_REG 1]"
  by (simp add: PCA9557_init_def Let_def py_try_def py_bind_def py_return_def read_reg_eq write_reg_eq
      world0_def)

theorem init_bus_sequence_witness:
  "calls (snd (PCA9557_init (sim_i2c no_fault) PCA9557_ADDR False (world0 0 0 0 0xFF))) =
     [ReadMem PCA9557_ADDR PCA9557_CONFIG_REG 1, ReadMem PCA9557_ADDR PCA9557_OUTPUT_REG 1,
      WriteMem PCA9557_ADDR PCA9557_CONFIG_REG [0x00],
      WriteMem PCA9557_ADDR PCA9557_OUTPUT_REG [0xFF]]"
  using init_bus_sequence [of "sim_i2c no_fault" PCA9557_ADDR False "world0 0 0 0 0xFF"]
  by (simp add: world0_def)

section \<open>Arguments other than 0 and 1\<close>

text \<open>
  C9. For a valid pin \<open>p\<close>, each setter treats every second argument other than 0 as
  the set-bit case: \<^verbatim>\<open>set_pin_mode(p, m)\<close> with \<open>m \<noteq> 0\<close> (for instance 2) does exactly what
  \<^verbatim>\<open>set_pin_mode(p, PIN_INPUT)\<close> does, and likewise \<^verbatim>\<open>set_pin_value\<close> and
  \<^verbatim>\<open>set_pin_polarity\<close>; the value written is the value read with bit \<open>p\<close> set.
\<close>

theorem nonzero_argument_sets_bit:
  assumes "0 \<le> p" "p \<le> 7" "m \<noteq> 0"
  shows
    "set_pin_mode self p m w = set_pin_mode self p PIN_INPUT w \<and>
     set_pin_value self p m w = set_pin_value self p PIN_HIGH w \<and>
     set_pin_polarity self p m w = set_pin_polarity self p PIN_INVERTED w \<and>
     (\<exists>c w1 v. read_reg self PCA9557_CONFIG_REG w = (Inr c, w1) \<and>
        calls (snd (set_pin_mode self p m w)) =
          calls w1 @ [WriteMem (addr self) PCA9557_CONFIG_REG [v]] \<and>
        uint v = c OR push_bit (nat p) 1) \<and>
     (\<exists>c w1 v. read_reg self PCA9557_OUTPUT_REG w = (Inr c, w1) \<and>
        calls (snd (set_pin_value self p m w)) =
          calls w1 @ [WriteMem (addr self) PCA9557_OUTPUT_REG [v]] \<and>
        uint v = c OR push_bit (nat p) 1) \<and>
     (\<exists>c w1 v. read_reg self PCA9557_POLARITY_REG w = (Inr c, w1) \<and>
        calls (snd (set_pin_polarity self p m w)) =
          calls w1 @ [WriteMem (addr self) PCA9557_POLARITY_REG [v]] \<and>
        uint v = c OR push_bit (nat p) 1)"
proof (intro conjI)
  show "set_pin_mode self p m w = set_pin_mode self p PIN_INPUT w"
    using assms(3) by (simp add: set_pin_mode_def)
  show "set_pin_value self p m w = set_pin_value self p PIN_HIGH w"
    using assms(3) by (simp add: set_pin_value_def)
  show "set_pin_polarity self p m w = set_pin_polarity self p PIN_INVERTED w"
    using assms(3) by (simp add: set_pin_polarity_def)
  show "\<exists>c w1 v. read_reg self PCA9557_CONFIG_REG w = (Inr c, w1) \<and>
        calls (snd (set_pin_mode self p m w)) =
          calls w1 @ [WriteMem (addr self) PCA9557_CONFIG_REG [v]] \<and>
        uint v = c OR push_bit (nat p) 1"
    using set_pin_mode_write [OF assms(1,2), of self w m] assms(3) by force
  show "\<exists>c w1 v. read_reg self PCA9557_OUTPUT_REG w = (Inr c, w1) \<and>
        calls (snd (set_pin_value self p m w)) =
          calls w1 @ [WriteMem (addr self) PCA9557_OUTPUT_REG [v]] \<and>
        uint v = c OR push_bit (nat p) 1"
    using set_pin_value_write [OF assms(1,2), of self w m] assms(3) by force
  show "\<exists>c w1 v. read_reg self PCA9557_POLARITY_REG w = (Inr c, w1) \<and>
        calls (snd (set_pin_polarity self p m w)) =
          calls w1 @ [WriteMem (addr self) PCA9557_POLARITY_REG [v]] \<and>
        uint v = c OR push_bit (nat p) 1"
    using set_pin_polarity_write [OF assms(1,2), of self w m] assms(3) by force
qed

theorem nonzero_argument_sets_bit_witness:
  "set_pin_mode \<lparr>i2c = sim_i2c no_fault, addr = PCA9557_ADDR, debug = False\<rparr> 5 2
     (world0 0 0 0 0x01) =
   set_pin_mode \<lparr>i2c = sim_i2c no_fault, addr = PCA9557_ADDR, debug = False\<rparr> 5 PIN_INPUT
     (world0 0 0 0 0x01) \<and>
   calls (snd (set_pin_mode \<lparr>i2c = sim_i2c no_fault, addr = PCA9557_ADDR, debug = False\<rparr> 5 2
     (world0 0 0 0 0x01))) =
     [ReadMem PCA9557_ADDR PCA9557_CONFIG_REG 1, WriteMem PCA9557_ADDR PCA9557_CONFIG_REG [0x21]]"
proof -
  have h: "(0::int) \<le> 5" "(5::int) \<le> 7" "(2::int) \<noteq> 0" by simp_all
  have "calls (snd (set_pin_mode \<lparr>i2c = sim_i2c no_fault, addr = PCA9557_ADDR, debug = False\<rparr>
          5 PIN_INPUT (world0 0 0 0 0x01))) =
        [ReadMem PCA9557_ADDR PCA9557_CONFIG_REG 1, WriteMem PCA9557_ADDR PCA9557_CONFIG_REG [0x21]]"
    by (simp add: set_pin_mode_def py_bind_def read_reg_eq write_reg_eq world0_def sim_i2c_def
        sim_read_def sim_write_def no_fault_def)
  then show ?thesis
    using nonzero_argument_sets_bit [OF h, of "\<lparr>i2c = sim_i2c no_fault, addr = PCA9557_ADDR, debug = False\<rparr>"
        "world0 0 0 0 0x01"]
    by simp
qed

section \<open>The pin adapter\<close>

text \<open>
  C8. Constructing a \<^verbatim>\<open>PCA9557Pin\<close> calls \<^verbatim>\<open>set_pin_mode(pin_num, PIN_OUTPUT)\<close> on the
  expander and then returns the adapter: the world after construction is the world after
  that call, and the result is the adapter whatever the call returned, so a failed
  device write is not surfaced.
\<close>

theorem Pin_init_sets_output_mode:
  "PCA9557Pin_init pca n dbg w =
     (Inr \<lparr>pca9557 = pca, pin_num = n, pin_debug = dbg\<rparr>,
      snd (set_pin_mode pca n PIN_OUTPUT w))"
proof -
  obtain b where "fst (set_pin_mode pca n PIN_OUTPUT w) = Inr b"
    using set_pin_mode_total [of pca n 0 w] by blast
  then show ?thesis
    by (cases "set_pin_mode pca n PIN_OUTPUT w")
      (simp add: PCA9557Pin_init_def Let_def py_bind_def py_return_def)
qed

theorem Pin_init_sets_output_mode_witness:
  "fst (PCA9557Pin_init \<lparr>i2c = sim_i2c always_fault, addr = PCA9557_ADDR, debug = False\<rparr> 3 False
          (world0 0 0 0 0xFF)) =
     Inr \<lparr>pca9557 = \<lparr>i2c = sim_i2c always_fault, addr = PCA9557_ADDR, debug = False\<rparr>,
          pin_num = 3, pin_debug = False\<rparr> \<and>
   set_pin_mode \<lparr>i2c = sim_i2c always_fault, addr = PCA9557_ADDR, debug = False\<rparr> 3 PIN_OUTPUT
          (world0 0 0 0 0xFF) =
     (Inr False, snd (PCA9557Pin_init \<lparr>i2c = sim_i2c always_fault, addr = PCA9557_ADDR, debug = False\<rparr>
          3 False (world0 0 0 0 0xFF))) \<and>
   calls (snd (PCA9557Pin_init \<lparr>i2c = sim_i2c no_fault, addr = PCA9557_ADDR, debug = False\<rparr>
          3 False (world0 0 0 0 0xFF))) =
     [ReadMem PCA9557_ADDR PCA9557_CONFIG_REG 1, WriteMem PCA9557_ADDR PCA9557_CONFIG_REG [0xF7]]"
proof -
  have "set_pin_mode \<lparr>i2c = sim_i2c always_fault, addr = PCA9557_ADDR, debug = False\<rparr> 3 PIN_OUTPUT
          (world0 0 0 0 0xFF) =
        (Inr False, snd (set_pin_mode \<lparr>i2c = sim_i2c always_fault, addr = PCA9557_ADDR, debug = False\<rparr>
          3 PIN_OUTPUT (world0 0 0 0 0xFF)))"
    by (simp add: set_pin_mode_def py_bind_def read_reg_eq write_reg_eq world0_def sim_i2c_def
        sim_read_def sim_write_def always_fault_def)
  moreover have "calls (snd (set_pin_mode \<lparr>i2c = sim_i2c no_fault, addr = PCA9557_ADDR, debug = False\<rparr>
          3 PIN_OUTPUT (world0 0 0 0 0xFF))) =
     [ReadMem PCA9557_ADDR PCA9557_CONFIG_REG 1, WriteMem PCA9557_ADDR PCA9557_CONFIG_REG [0xF7]]"
    by (simp add: set_pin_mode_def py_bind_def read_reg_eq write_reg_eq world0_def sim_i2c_def
        sim_read_def sim_write_def no_fault_def)
  ultimately show ?thesis
    by (simp add: Pin_init_sets_output_mode)
qed

text \<open>
  C10. \<^verbatim>\<open>PCA9557Pin.value(val)\<close> reads (through \<^verbatim>\<open>get_pin_value\<close>, returning an int) only
  when \<^verbatim>\<open>val\<close> is \<^verbatim>\<open>None\<close>. For every other \<^verbatim>\<open>val\<close>, the falsy 0 included, it writes:
  \<^verbatim>\<open>set_pin_value\<close> with \<^verbatim>\<open>PIN_LOW\<close> for a falsy \<^verbatim>\<open>val\<close> and \<^verbatim>\<open>PIN_HIGH\<close> for a truthy one,
  and returns the boolean result of the write.
\<close>

theorem Pin_value_read_or_write:
  assumes "val \<noteq> PyNone"
  shows
    "(\<exists>r. get_pin_value (pca9557 self) (pin_num self) w =
            (Inr r, snd (get_pin_value (pca9557 self) (pin_num self) w)) \<and>
          Pin_value self PyNone w =
            (Inr (PyInt r), snd (get_pin_value (pca9557 self) (pin_num self) w))) \<and>
     (\<exists>b. set_pin_value (pca9557 self) (pin_num self)
             (if truthy val then PIN_HIGH else PIN_LOW) w =
            (Inr b, snd (set_pin_value (pca9557 self) (pin_num self)
                           (if truthy val then PIN_HIGH else PIN_LOW) w)) \<and>
          Pin_value self val w =
            (Inr (PyBool b), snd (set_pin_value (pca9557 self) (pin_num self)
                                    (if truthy val then PIN_HIGH else PIN_LOW) w))) \<and>
     (\<exists>b. set_pin_value (pca9557 self) (pin_num self) PIN_LOW w =
            (Inr b, snd (set_pin_value (pca9557 self) (pin_num self) PIN_LOW w)) \<and>
          Pin_value self (PyInt 0) w =
            (Inr (PyBool b), snd (set_pin_value (pca9557 self) (pin_num self) PIN_LOW w)))"
proof (intro conjI)
  obtain r where r: "fst (get_pin_value (pca9557 self) (pin_num self) w) = Inr r"
    using get_pin_value_total by blast
  then show "\<exists>r. get_pin_value (pca9557 self) (pin_num self) w =
            (Inr r, snd (get_pin_value (pca9557 self) (pin_num self) w)) \<and>
          Pin_value self PyNone w =
            (Inr (PyInt r), snd (get_pin_value (pca9557 self) (pin_num self) w))"
    by (cases "get_pin_value (pca9557 self) (pin_num self) w")
      (simp add: Pin_value_def py_bind_def py_return_def)
  have wr: "\<exists>b. set_pin_value (pca9557 self) (pin_num self) a w =
            (Inr b, snd (set_pin_value (pca9557 self) (pin_num self) a w)) \<and>
          py_bind (set_pin_value (pca9557 self) (pin_num self) a) (\<lambda>r. py_return (PyBool r)) w =
            (Inr (PyBool b), snd (set_pin_value (pca9557 self) (pin_num self) a w))" for a
  proof -
    obtain b where "fst (set_pin_value (pca9557 self) (pin_num self) a w) = Inr b"
      using set_pin_value_total by blast
    then show ?thesis
      by (cases "set_pin_value (pca9557 self) (pin_num self) a w")
        (simp add: py_bind_def py_return_def)
  qed
  show "\<exists>b. set_pin_value (pca9557 self) (pin_num self)
             (if truthy val then PIN_HIGH else PIN_LOW) w =
            (Inr b, snd (set_pin_value (pca9557 self) (pin_num self)
                           (if truthy val then PIN_HIGH else PIN_LOW) w)) \<and>
          Pin_value self val w =
            (Inr (PyBool b), snd (set_pin_value (pca9557 self) (pin_num self)
                                    (if truthy val then PIN_HIGH else PIN_LOW) w))"
    using wr [of "if truthy val then PIN_HIGH else PIN_LOW"] assms
    by (simp add: Pin_value_def)
  show "\<exists>b. set_pin_value (pca9557 self) (pin_num self) PIN_LOW w =
            (Inr b, snd (set_pin_value (pca9557 self) (pin_num self) PIN_LOW w)) \<and>
          Pin_value self (PyInt 0) w =
            (Inr (PyBool b), snd (set_pin_value (pca9557 self) (pin_num self) PIN_LOW w))"
    using wr [of PIN_LOW] by (simp add: Pin_value_def)
qed

theorem Pin_value_read_or_write_witness:
  "Pin_value \<lparr>pca9557 = \<lparr>i2c = sim_i2c no_fault, addr = PCA9557_ADDR, debug = False\<rparr>,
              pin_num = 2, pin_debug = False\<rparr> (PyInt 0) (world0 0x04 0xFF 0 0) =
     (Inr (PyBool True),
      \<lparr>bus = \<lparr>regs = (regs (bus (world0 0x04 0xFF 0 0)))(PCA9557_OUTPUT_REG := 0xFB), tick = 2\<rparr>,
       calls = [ReadMem PCA9557_ADDR PCA9557_OUTPUT_REG 1,
                WriteMem PCA9557_ADDR PCA9557_OUTPUT_REG [0xFB]]\<rparr>) \<and>
   Pin_value \<lparr>pca9557 = \<lparr>i2c = sim_i2c no_fault, addr = PCA9557_ADDR, debug = False\<rparr>,
              pin_num = 2, pin_debug = False\<rparr> PyNone (world0 0x04 0xFF 0 0) =
     (Inr (PyInt 1),
      \<lparr>bus = \<lparr>regs = regs (bus (world0 0x04 0xFF 0 0)), tick = 1\<rparr>,
       calls = [ReadMem PCA9557_ADDR PCA9557_INPUT_REG 1]\<rparr>)"
proof -
  have h: "PyInt 0 \<noteq> PyNone" by simp
  have s: "set_pin_value \<lparr>i2c = sim_i2c no_fault, addr = PCA9557_ADDR, debug = False\<rparr> 2 PIN_LOW
             (world0 0x04 0xFF 0 0) =
     (Inr True,
      \<lparr>bus = \<lparr>regs = (regs (bus (world0 0x04 0xFF 0 0)))(PCA9557_OUTPUT_REG := 0xFB), tick = 2\<rparr>,
       calls = [ReadMem PCA9557_ADDR PCA9557_OUTPUT_REG 1,
                WriteMem PCA9557_ADDR PCA9557_OUTPUT_REG [0xFB]]\<rparr>)"
    by (simp add: set_pin_value_def py_bind_def py_return_def read_reg_eq write_reg_eq world0_def
        sim_i2c_def sim_read_def sim_write_def no_fault_def)
  have g: "get_pin_value \<lparr>i2c = sim_i2c no_fault, addr = PCA9557_ADDR, debug = False\<rparr> 2
             (world0 0x04 0xFF 0 0) =
     (Inr 1,
      \<lparr>bus = \<lparr>regs = regs (bus (world0 0x04 0xFF 0 0)), tick = 1\<rparr>,
       calls = [ReadMem PCA9557_ADDR PCA9557_INPUT_REG 1]\<rparr>)"
    by (simp add: get_pin_value_def py_bind_def py_return_def read_reg_eq world0_def
        sim_i2c_def sim_read_def no_fault_def)
  show ?thesis
    using Pin_value_read_or_write [OF h,
        of "\<lparr>pca9557 = \<lparr>i2c = sim_i2c no_fault, addr = PCA9557_ADDR, debug = False\<rparr>,
              pin_num = 2, pin_debug = False\<rparr>" "world0 0x04 0xFF 0 0"] s g
    by auto
qed

section \<open>Bits other than the target\<close>

lemma bit_new_value_other:
  fixes V :: byte
  assumes "uint v = (if a = 0 then uint V AND NOT (push_bit n 1) else uint V OR push_bit n 1)"
    and "i \<noteq> n"
  shows "bit (v :: byte) i = bit V i"
proof -
  have "bit v i = bit (uint v) i" by (auto simp: bit_uint_iff dest: bit_imp_le_length)
  also have "\<dots> = bit (uint V) i"
    using assms by (auto simp: bit_and_iff bit_or_iff bit_not_iff bit_exp_iff)
  also have "\<dots> = bit V i" by (auto simp: bit_uint_iff dest: bit_imp_le_length)
  finally show ?thesis .
qed

lemma read_reg_ok:
  "readfrom_mem (i2c self) (addr self) reg 1 (bus w) = (Inr (V # rest), b1) \<Longrightarrow>
   read_reg self reg w = (Inr (uint V), \<lparr>bus = b1, calls = calls w @ [ReadMem (addr self) reg 1]\<rparr>)"
  by (simp add: read_reg_eq)

text \<open>
  C3. For a valid pin \<open>p\<close> and each of the Config, Output and Polarity registers: when
  the read of the register succeeds and returns the byte \<open>V\<close>, the setter issues that
  read and then one write, and the byte written differs from \<open>V\<close> in at most bit \<open>p\<close>.
  (When the read raises, \<^verbatim>\<open>_read_reg\<close> gives 0 and the other bits are not kept; see the
  counterexample below.)
\<close>

theorem other_bits_unchanged:
  assumes "0 \<le> p" "p \<le> 7"
  shows
    "(\<forall>V rest b1.
        readfrom_mem (i2c self) (addr self) PCA9557_CONFIG_REG 1 (bus w) = (Inr (V # rest), b1) \<longrightarrow>
        (\<exists>v. calls (snd (set_pin_mode self p a w)) =
               calls w @ [ReadMem (addr self) PCA9557_CONFIG_REG 1,
                          WriteMem (addr self) PCA9557_CONFIG_REG [v]] \<and>
             (\<forall>i. i \<noteq> nat p \<longrightarrow> bit v i = bit V i))) \<and>
     (\<forall>V rest b1.
        readfrom_mem (i2c self) (addr self) PCA9557_OUTPUT_REG 1 (bus w) = (Inr (V # rest), b1) \<longrightarrow>
        (\<exists>v. calls (snd (set_pin_value self p a w)) =
               calls w @ [ReadMem (addr self) PCA9557_OUTPUT_REG 1,
                          WriteMem (addr self) PCA9557_OUTPUT_REG [v]] \<and>
             (\<forall>i. i \<noteq> nat p \<longrightarrow> bit v i = bit V i))) \<and>
     (\<forall>V rest b1.
        readfrom_mem (i2c self) (addr self) PCA9557_POLARITY_REG 1 (bus w) = (Inr (V # rest), b1) \<longrightarrow>
        (\<exists>v. calls (snd (set_pin_polarity self p a w)) =
               calls w @ [ReadMem (addr self) PCA9557_POLARITY_REG 1,
                          WriteMem (addr self) PCA9557_POLARITY_REG [v]] \<and>
             (\<forall>i. i \<noteq> nat p \<longrightarrow> bit v i = bit V i)))"
proof (intro conjI allI impI)
  fix V rest b1
  assume rd: "readfrom_mem (i2c self) (addr self) PCA9557_CONFIG_REG 1 (bus w) = (Inr (V # rest), b1)"
  obtain c w1 v b where r: "read_reg self 3 w = (Inr c, w1)"
    and s: "set_pin_mode self p a w =
             (Inr b, \<lparr>bus = snd (writeto_mem (i2c self) (addr self) 3 [v] (bus w1)),
                      calls = calls w1 @ [WriteMem (addr self) 3 [v]]\<rparr>)"
    and u: "uint v = (if a = 0 then c AND NOT (push_bit (nat p) 1) else c OR push_bit (nat p) 1)"
    using set_pin_mode_write [OF assms, of self w a] by blast
  from r read_reg_ok [OF rd] have c: "c = uint V"
    and w1: "w1 = \<lparr>bus = b1, calls = calls w @ [ReadMem (addr self) 3 1]\<rparr>" by simp_all
  have "\<forall>i. i \<noteq> nat p \<longrightarrow> bit v i = bit V i"
    using bit_new_value_other [of v a V "nat p"] u c by simp
  then show "\<exists>v. calls (snd (set_pin_mode self p a w)) =
               calls w @ [ReadMem (addr self) PCA9557_CONFIG_REG 1,
                          WriteMem (addr self) PCA9557_CONFIG_REG [v]] \<and>
             (\<forall>i. i \<noteq> nat p \<longrightarrow> bit v i = bit V i)"
    using s w1 by auto
next
  fix V rest b1
  assume rd: "readfrom_mem (i2c self) (addr self) PCA9557_OUTPUT_REG 1 (bus w) = (Inr (V # rest), b1)"
  obtain c w1 v b where r: "read_reg self 1 w = (Inr c, w1)"
    and s: "set_pin_value self p a w =
             (Inr b, \<lparr>bus = snd (writeto_mem (i2c self) (addr self) 1 [v] (bus w1)),
                      calls = calls w1 @ [WriteMem (addr self) 1 [v]]\<rparr>)"
    and u: "uint v = (if a = 0 then c AND NOT (push_bit (nat p) 1) else c OR push_bit (nat p) 1)"
    using set_pin_value_write [OF assms, of self w a] by blast
  from r read_reg_ok [OF rd] have c: "c = uint V"
    and w1: "w1 = \<lparr>bus = b1, calls = calls w @ [ReadMem (addr self) 1 1]\<rparr>" by simp_all
  have "\<forall>i. i \<noteq> nat p \<longrightarrow> bit v i = bit V i"
    using bit_new_value_other [of v a V "nat p"] u c by simp
  then show "\<exists>v. calls (snd (set_pin_value self p a w)) =
               calls w @ [ReadMem (addr self) PCA9557_OUTPUT_REG 1,
                          WriteMem (addr self) PCA9557_OUTPUT_REG [v]] \<and>
             (\<forall>i. i \<noteq> nat p \<longrightarrow> bit v i = bit V i)"
    using s w1 by auto
next
  fix V rest b1
  assume rd: "readfrom_mem (i2c self) (addr self) PCA9557_POLARITY_REG 1 (bus w) = (Inr (V # rest), b1)"
  obtain c w1 v b where r: "read_reg self 2 w = (Inr c, w1)"
    and s: "set_pin_polarity self p a w =
             (Inr b, \<lparr>bus = snd (writeto_mem (i2c self) (addr self) 2 [v] (bus w1)),
                      calls = calls w1 @ [WriteMem (addr self) 2 [v]]\<rparr>)"
    and u: "uint v = (if a = 0 then c AND NOT (push_bit (nat p) 1) else c OR push_bit (nat p) 1)"
    using set_pin_polarity_write [OF assms, of self w a] by blast
  from r read_reg_ok [OF rd] have c: "c = uint V"
    and w1: "w1 = \<lparr>bus = b1, calls = calls w @ [ReadMem (addr self) 2 1]\<rparr>" by simp_all
  have "\<forall>i. i \<noteq> nat p \<longrightarrow> bit v i = bit V i"
    using bit_new_value_other [of v a V "nat p"] u c by simp
  then show "\<exists>v. calls (snd (set_pin_polarity self p a w)) =
               calls w @ [ReadMem (addr self) PCA9557_POLARITY_REG 1,
                          WriteMem (addr self) PCA9557_POLARITY_REG [v]] \<and>
             (\<forall>i. i \<noteq> nat p \<longrightarrow> bit v i = bit V i)"
    using s w1 by auto
qed


theorem other_bits_unchanged_witness:
  "(\<exists>v. calls (snd (set_pin_mode \<lparr>i2c = sim_i2c no_fault, addr = PCA9557_ADDR, debug = False\<rparr>
                      0 PIN_OUTPUT (world0 0 0 0 0xFF))) =
          [ReadMem PCA9557_ADDR PCA9557_CONFIG_REG 1, WriteMem PCA9557_ADDR PCA9557_CONFIG_REG [v]] \<and>
        (\<forall>i. i \<noteq> nat 0 \<longrightarrow> bit v i = bit (0xFF :: byte) i)) \<and>
   calls (snd (set_pin_mode \<lparr>i2c = sim_i2c no_fault, addr = PCA9557_ADDR, debug = False\<rparr>
                      0 PIN_OUTPUT (world0 0 0 0 0xFF))) =
     [ReadMem PCA9557_ADDR PCA9557_CONFIG_REG 1, WriteMem PCA9557_ADDR PCA9557_CONFIG_REG [0xFE]]"
proof -
  have h: "(0::int) \<le> 0" "(0::int) \<le> 7" by simp_all
  have rd: "readfrom_mem (i2c \<lparr>i2c = sim_i2c no_fault, addr = PCA9557_ADDR, debug = False\<rparr>)
              (addr \<lparr>i2c = sim_i2c no_fault, addr = PCA9557_ADDR, debug = False\<rparr>)
              PCA9557_CONFIG_REG 1 (bus (world0 0 0 0 0xFF)) =
            (Inr (0xFF # []), (bus (world0 0 0 0 0xFF))\<lparr>tick := 1\<rparr>)"
    by (simp add: sim_i2c_def sim_read_def no_fault_def world0_def)
  have c: "calls (snd (set_pin_mode \<lparr>i2c = sim_i2c no_fault, addr = PCA9557_ADDR, debug = False\<rparr>
                      0 PIN_OUTPUT (world0 0 0 0 0xFF))) =
     [ReadMem PCA9557_ADDR PCA9557_CONFIG_REG 1, WriteMem PCA9557_ADDR PCA9557_CONFIG_REG [0xFE]]"
    by (simp add: set_pin_mode_def py_bind_def read_reg_eq write_reg_eq world0_def sim_i2c_def
        sim_read_def sim_write_def no_fault_def)
  from other_bits_unchanged [OF h,
      of "\<lparr>i2c = sim_i2c no_fault, addr = PCA9557_ADDR, debug = False\<rparr>" "world0 0 0 0 0xFF" 0]
  have "\<exists>v. calls (snd (set_pin_mode \<lparr>i2c = sim_i2c no_fault, addr = PCA9557_ADDR, debug = False\<rparr>
                      0 PIN_OUTPUT (world0 0 0 0 0xFF))) =
          calls (world0 0 0 0 0xFF) @
          [ReadMem (addr \<lparr>i2c = sim_i2c no_fault, addr = PCA9557_ADDR, debug = False\<rparr>)
             PCA9557_CONFIG_REG 1,
           WriteMem (addr \<lparr>i2c = sim_i2c no_fault, addr = PCA9557_ADDR, debug = False\<rparr>)
             PCA9557_CONFIG_REG [v]] \<and>
        (\<forall>i. i \<noteq> nat 0 \<longrightarrow> bit v i = bit (0xFF :: byte) i)"
    using rd by blast
  then show ?thesis using c by (simp add: world0_def)
qed

text \<open>
  A read that raises is taken as 0, so the write that follows clears every other bit of
  the register: Config holds 0xFF, the read is transaction 0 and fails, the write of
  \<^verbatim>\<open>set_pin_mode(0, PIN_OUTPUT)\<close> succeeds and stores 0x00.
\<close>

theorem other_bits_unchanged_counterexample:
  "regs (bus (world0 0 0 0 0xFF)) PCA9557_CONFIG_REG = 0xFF \<and>
   set_pin_mode \<lparr>i2c = sim_i2c first_fault, addr = PCA9557_ADDR, debug = False\<rparr>
       0 PIN_OUTPUT (world0 0 0 0 0xFF) =
     (Inr True,
      \<lparr>bus = \<lparr>regs = (regs (bus (world0 0 0 0 0xFF)))(PCA9557_CONFIG_REG := 0x00), tick = 2\<rparr>,
       calls = [ReadMem PCA9557_ADDR PCA9557_CONFIG_REG 1,
                WriteMem PCA9557_ADDR PCA9557_CONFIG_REG [0x00]]\<rparr>) \<and>
   \<not> (\<forall>i. i \<noteq> nat 0 \<longrightarrow> bit (0x00 :: byte) i = bit (0xFF :: byte) i)"
proof -
  have "bit (0xFF :: byte) 1" by simp
  then have "\<not> (\<forall>i. i \<noteq> nat 0 \<longrightarrow> bit (0x00 :: byte) i = bit (0xFF :: byte) i)"
    by (auto intro!: exI [of _ 1])
  then show ?thesis
    by (simp add: set_pin_mode_def py_bind_def read_reg_eq write_reg_eq world0_def sim_i2c_def
        sim_read_def sim_write_def first_fault_def)
qed

section \<open>Set, then read back\<close>

lemma sim_read_reg:
  "i2c self = sim_i2c no_fault \<Longrightarrow>
   read_reg self reg w =
     (Inr (uint (regs (bus w) reg)),
      \<lparr>bus = (bus w)\<lparr>tick := Suc (tick (bus w))\<rparr>,
       calls = calls w @ [ReadMem (addr self) reg 1]\<rparr>)"
  by (simp add: read_reg_eq sim_i2c_def sim_read_def no_fault_def)

lemma sim_write_bus:
  "reg \<noteq> 0 \<Longrightarrow>
   regs (snd (writeto_mem (sim_i2c no_fault) a reg [v] s)) reg = v \<and>
   fst (writeto_mem (sim_i2c no_fault) a reg [v] s) = Inr ()"
  by (simp add: sim_i2c_def sim_write_def no_fault_def)

lemma bit_new_value_target:
  assumes "uint (v :: byte) = (if a = 0 then c AND NOT (push_bit n 1) else c OR push_bit n 1)"
  shows "bit (uint v) n = (a \<noteq> 0)"
  using assms by (auto simp: bit_and_iff bit_or_iff bit_not_iff bit_exp_iff)

text \<open>
  C6. On the simulated register file with no faults, for every pin \<open>p\<close> in 0..7, each
  of mode, output value and polarity, and each \<open>b\<close> in {0, 1}: calling the setter with
  \<open>(p, b)\<close> and then reading the register back with \<^verbatim>\<open>_read_reg\<close> gives a value whose
  bit \<open>p\<close> is \<open>b\<close>.
\<close>

theorem set_then_read_back:
  assumes "i2c self = sim_i2c no_fault" "0 \<le> p" "p \<le> 7" "b = 0 \<or> b = 1"
  shows
    "(\<exists>c w2. read_reg self PCA9557_CONFIG_REG (snd (set_pin_mode self p b w)) = (Inr c, w2) \<and>
        (if bit c (nat p) then 1 else 0) = b) \<and>
     (\<exists>c w2. read_reg self PCA9557_OUTPUT_REG (snd (set_pin_value self p b w)) = (Inr c, w2) \<and>
        (if bit c (nat p) then 1 else 0) = b) \<and>
     (\<exists>c w2. read_reg self PCA9557_POLARITY_REG (snd (set_pin_polarity self p b w)) = (Inr c, w2) \<and>
        (if bit c (nat p) then 1 else 0) = b)"
proof (intro conjI)
  obtain c w1 v r where rr: "read_reg self 3 w = (Inr c, w1)" and
    s: "set_pin_mode self p b w =
         (Inr r, \<lparr>bus = snd (writeto_mem (i2c self) (addr self) 3 [v] (bus w1)),
                  calls = calls w1 @ [WriteMem (addr self) 3 [v]]\<rparr>)"
    and u: "uint v = (if b = 0 then c AND NOT (push_bit (nat p) 1) else c OR push_bit (nat p) 1)"
    using set_pin_mode_write [OF assms(2,3), of self w b] by blast
  have "regs (bus (snd (set_pin_mode self p b w))) 3 = v"
    using s assms(1) sim_write_bus [of 3 "addr self" v "bus w1"] by simp
  then show "\<exists>c w2. read_reg self PCA9557_CONFIG_REG (snd (set_pin_mode self p b w)) = (Inr c, w2) \<and>
        (if bit c (nat p) then 1 else 0) = b"
    using sim_read_reg [OF assms(1), of 3 "snd (set_pin_mode self p b w)"]
      bit_new_value_target [OF u] assms(4) by auto
next
  obtain c w1 v r where rr: "read_reg self 1 w = (Inr c, w1)" and
    s: "set_pin_value self p b w =
         (Inr r, \<lparr>bus = snd (writeto_mem (i2c self) (addr self) 1 [v] (bus w1)),
                  calls = calls w1 @ [WriteMem (addr self) 1 [v]]\<rparr>)"
    and u: "uint v = (if b = 0 then c AND NOT (push_bit (nat p) 1) else c OR push_bit (nat p) 1)"
    using set_pin_value_write [OF assms(2,3), of self w b] by blast
  have "regs (bus (snd (set_pin_value self p b w))) 1 = v"
    using s assms(1) sim_write_bus [of 1 "addr self" v "bus w1"] by simp
  then show "\<exists>c w2. read_reg self PCA9557_OUTPUT_REG (snd (set_pin_value self p b w)) = (Inr c, w2) \<and>
        (if bit c (nat p) then 1 else 0) = b"
    using sim_read_reg [OF assms(1), of 1 "snd (set_pin_value self p b w)"]
      bit_new_value_target [OF u] assms(4) by auto
next
  obtain c w1 v r where rr: "read_reg self 2 w = (Inr c, w1)" and
    s: "set_pin_polarity self p b w =
         (Inr r, \<lparr>bus = snd (writeto_mem (i2c self) (addr self) 2 [v] (bus w1)),
                  calls = calls w1 @ [WriteMem (addr self) 2 [v]]\<rparr>)"
    and u: "uint v = (if b = 0 then c AND NOT (push_bit (nat p) 1) else c OR push_bit (nat p) 1)"
    using set_pin_polarity_write [OF assms(2,3), of self w b] by blast
  have "regs (bus (snd (set_pin_polarity self p b w))) 2 = v"
    using s assms(1) sim_write_bus [of 2 "addr self" v "bus w1"] by simp
  then show "\<exists>c w2. read_reg self PCA9557_POLARITY_REG (snd (set_pin_polarity self p b w)) = (Inr c, w2) \<and>
        (if bit c (nat p) then 1 else 0) = b"
    using sim_read_reg [OF assms(1), of 2 "snd (set_pin_polarity self p b w)"]
      bit_new_value_target [OF u] assms(4) by auto
qed

theorem set_then_read_back_witness:
  "(\<exists>c w2. read_reg \<lparr>i2c = sim_i2c no_fault, addr = PCA9557_ADDR, debug = False\<rparr> PCA9557_CONFIG_REG
              (snd (set_pin_mode \<lparr>i2c = sim_i2c no_fault, addr = PCA9557_ADDR, debug = False\<rparr>
                      3 PIN_INPUT (world0 0 0xFF 0 0))) = (Inr c, w2) \<and>
        (if bit c (nat 3) then 1 else 0) = PIN_INPUT) \<and>
   fst (read_reg \<lparr>i2c = sim_i2c no_fault, addr = PCA9557_ADDR, debug = False\<rparr> PCA9557_CONFIG_REG
          (snd (set_pin_mode \<lparr>i2c = sim_i2c no_fault, addr = PCA9557_ADDR, debug = False\<rparr>
                  3 PIN_INPUT (world0 0 0xFF 0 0)))) = Inr 0x08"
proof -
  have h: "i2c \<lparr>i2c = sim_i2c no_fault, addr = PCA9557_ADDR, debug = False\<rparr> = sim_i2c no_fault"
    "(0::int) \<le> 3" "(3::int) \<le> 7" "(1::int) = 0 \<or> (1::int) = 1" by simp_all
  have c: "fst (read_reg \<lparr>i2c = sim_i2c no_fault, addr = PCA9557_ADDR, debug = False\<rparr> PCA9557_CONFIG_REG
          (snd (set_pin_mode \<lparr>i2c = sim_i2c no_fault, addr = PCA9557_ADDR, debug = False\<rparr>
                  3 PIN_INPUT (world0 0 0xFF 0 0)))) = Inr 0x08"
    by (simp add: set_pin_mode_def py_bind_def read_reg_eq write_reg_eq world0_def sim_i2c_def
        sim_read_def sim_write_def no_fault_def)
  from set_then_read_back [OF h, of "world0 0 0xFF 0 0"] c
  show ?thesis by simp
qed

end
